theory Spec2Isabelle
  imports Main
begin

section \<open>Errors and tensors\<close>

text \<open>
  Every exception of the Python code is a value: \<open>Inl e\<close> of a result type \<open>error + 'a\<close>.
  \<open>NotImplementedError\<close> is raised by the abstract members of the distribution output,
  \<open>AttributeError\<close> by reading an attribute that the object does not have and by an
  assignment to a property without a setter, \<open>ShapeError\<close> and \<open>TypeError\<close> by the tensor
  engine, and \<open>Raised msg\<close> stands for any other exception of a collaborator (the wrapped
  cell, a domain map, a distribution constructor).
\<close>

datatype error = NotImplementedError | AttributeError | ShapeError | TypeError | Raised string

text \<open>
  A per-step tensor has shape (batch, channel) and is a list of rows; a merged sequence
  tensor has rank three, (batch, time, channel) in layout NTC and (time, batch, channel)
  in layout TNC. The value handed to and returned by \<open>unroll\<close> is either one merged
  tensor or a Python list of per-step tensors; iterating a tensor yields its slices along
  the leading axis, which is what \<open>zip\<close> does with it.
\<close>

datatype 'a seq_value = Tensor "'a list list list" | TensorList "'a list list list"

fun is_tensor :: "'a seq_value \<Rightarrow> bool" where
  "is_tensor (Tensor x) = True"
| "is_tensor (TensorList l) = False"

fun items :: "'a seq_value \<Rightarrow> 'a list list list" where
  "items (Tensor x) = x"
| "items (TensorList l) = l"

datatype layout = NTC | TNC

text \<open>
  Modelled from the spec: \<open>F.elemwise_add\<close>, the engine's elementwise addition, is not
  part of the sources. It requires both operands to have identical shape and signals a
  shape mismatch otherwise; handed a Python list where a tensor is expected it signals a
  type error.
\<close>

definition elemwise_add :: "'a::plus list list \<Rightarrow> 'a list list \<Rightarrow> error + 'a list list" where
  "elemwise_add a b =
     (if map length a = map length b then Inr (map2 (map2 (+)) a b) else Inl ShapeError)"

definition elemwise_add3 ::
  "'a::plus list list list \<Rightarrow> 'a list list list \<Rightarrow> error + 'a list list list" where
  "elemwise_add3 a b =
     (if map (map length) a = map (map length) b
      then Inr (map2 (map2 (map2 (+))) a b) else Inl ShapeError)"

fun elemwise_add_value :: "'a::plus seq_value \<Rightarrow> 'a seq_value \<Rightarrow> error + 'a seq_value" where
  "elemwise_add_value (Tensor x) (Tensor y) =
     (case elemwise_add3 x y of Inl e \<Rightarrow> Inl e | Inr z \<Rightarrow> Inr (Tensor z))"
| "elemwise_add_value (Tensor x) (TensorList l) = Inl TypeError"
| "elemwise_add_value (TensorList l) y = Inl TypeError"

text \<open>
  The list comprehension \<open>[F.elemwise_add(i, j) for i, j in zip(outputs, inputs)]\<close>: the
  pairs are added from left to right and the first failing addition ends the loop.
\<close>

fun elemwise_add_all ::
  "('a::plus list list \<times> 'a list list) list \<Rightarrow> error + 'a list list list" where
  "elemwise_add_all [] = Inr []"
| "elemwise_add_all ((i, j) # ps) =
     (case elemwise_add i j of
        Inl e \<Rightarrow> Inl e
      | Inr s \<Rightarrow> (case elemwise_add_all ps of Inl e \<Rightarrow> Inl e | Inr ss \<Rightarrow> Inr (s # ss)))"

section \<open>Residual recurrent cell\<close>

text \<open>
  The wrapped cell is an object with a \<open>_modified\<close> flag and attributes of its own
  (\<open>attrs\<close>); the residual cell holds it as \<open>base_cell\<close> and has the step counter, which
  only gives the addition of a single step its name. Calling the wrapped cell and
  unrolling it are its own methods, parameters of the model: they read and may update
  the object, and return either an exception or a pair of outputs and recurrent states.
  The elements of the tensors are of any type with an addition and a zero.
\<close>

record 'c rnn_cell =
  modified :: bool
  attrs :: 'c

record 'c residual_cell =
  base_cell :: "'c rnn_cell"
  counter :: int

type_synonym ('a, 's, 'c) cell_call =
  "'c rnn_cell \<Rightarrow> 'a list list \<Rightarrow> 's \<Rightarrow> 'c rnn_cell \<times> (error + 'a list list \<times> 's)"

definition hybrid_forward ::
  "('a::plus, 's, 'c) cell_call \<Rightarrow> 'c residual_cell \<Rightarrow> 'a list list \<Rightarrow> 's \<Rightarrow>
     'c residual_cell \<times> (error + 'a list list \<times> 's)" where
  "hybrid_forward base_call self inputs states =
     (case base_call (base_cell self) inputs states of
        (bc, Inl e) \<Rightarrow> (self\<lparr>base_cell := bc\<rparr>, Inl e)
      | (bc, Inr (output, states')) \<Rightarrow>
          (self\<lparr>base_cell := bc\<rparr>,
           case elemwise_add output inputs of
             Inl e \<Rightarrow> Inl e
           | Inr output' \<Rightarrow> Inr (output', states')))"

text \<open>
  Modelled from the spec: \<open>_format_sequence\<close> is not part of the sources. It normalises
  \<open>inputs\<close> into the requested convention (one merged tensor when \<open>merge\<close> holds, a list of
  per-step tensors otherwise) and reports the time axis of the layout: the leading axis
  for TNC, the second one for NTC. Splitting a merged tensor along the time axis, and
  stacking a list along it, is the identity on the nested lists for TNC and the exchange
  of the two outer axes for NTC. Of the four values that \<open>unroll\<close> receives from it, the
  engine is the one engine of this model and the batch size is not used.
\<close>

fun time_axis :: "layout \<Rightarrow> nat" where
  "time_axis NTC = 1"
| "time_axis TNC = 0"

definition format_sequence ::
  "nat \<Rightarrow> 'a seq_value \<Rightarrow> layout \<Rightarrow> bool \<Rightarrow> 'a seq_value \<times> nat" where
  "format_sequence len inputs layout merge =
     (let axis = time_axis layout in
      (case inputs of
         Tensor x \<Rightarrow>
           if merge then Tensor x
           else TensorList (if axis = 0 then x else transpose x)
       | TensorList l \<Rightarrow>
           if merge then Tensor (if axis = 0 then l else transpose l)
           else TensorList l,
       axis))"

text \<open>
  Modelled from the spec: \<open>_mask_sequence_variable_length\<close> is not part of the sources.
  It zeroes the positions of \<open>data\<close> beyond each sequence's valid length, per sequence and
  per time step, and keeps the convention of \<open>data\<close>. The valid-length tensor has one
  entry per sequence of the batch; the engine signals a shape mismatch otherwise.
  \<open>mask_step\<close> masks the step at time \<open>t\<close> (one row per sequence), \<open>mask_series\<close> masks one
  sequence (one row per time step) with valid length \<open>v\<close>.
\<close>

definition mask_step :: "int list \<Rightarrow> nat \<Rightarrow> 'a::zero list list \<Rightarrow> 'a list list" where
  "mask_step valid_length t step =
     map2 (\<lambda>v row. if int t < v then row else map (\<lambda>_. 0) row) valid_length step"

definition mask_series :: "int \<Rightarrow> 'a::zero list list \<Rightarrow> 'a list list" where
  "mask_series v series =
     map (\<lambda>(t, row). if int t < v then row else map (\<lambda>_. 0) row)
       (zip [0..<length series] series)"

definition mask_steps :: "int list \<Rightarrow> 'a::zero list list list \<Rightarrow> error + 'a list list list" where
  "mask_steps valid_length steps =
     (if list_all (\<lambda>step. length step = length valid_length) steps
      then Inr (map (\<lambda>(t, step). mask_step valid_length t step) (zip [0..<length steps] steps))
      else Inl ShapeError)"

definition mask_sequence_variable_length ::
  "'a::zero seq_value \<Rightarrow> nat \<Rightarrow> int list \<Rightarrow> nat \<Rightarrow> bool \<Rightarrow> error + 'a seq_value" where
  "mask_sequence_variable_length data len valid_length axis merge =
     (case data of
        TensorList l \<Rightarrow>
          (case mask_steps valid_length l of Inl e \<Rightarrow> Inl e | Inr m \<Rightarrow> Inr (TensorList m))
      | Tensor x \<Rightarrow>
          if axis = 0
          then (case mask_steps valid_length x of Inl e \<Rightarrow> Inl e | Inr m \<Rightarrow> Inr (Tensor m))
          else if length x = length valid_length
          then Inr (Tensor (map (\<lambda>(v, series). mask_series v series) (zip valid_length x)))
          else Inl ShapeError)"

text \<open>
  \<open>unroll\<close>. The inherited \<open>reset\<close> and the wrapped cell's \<open>unroll\<close> are parameters. The
  result carries the residual cell object as the call leaves it, also when an exception
  ends the call: an exception of the wrapped cell's \<open>unroll\<close> propagates from the
  statement that calls it, so the assignment after it is not reached.
\<close>

type_synonym ('a, 's, 'c) cell_unroll =
  "'c rnn_cell \<Rightarrow> nat \<Rightarrow> 'a seq_value \<Rightarrow> 's option \<Rightarrow> layout \<Rightarrow> bool option \<Rightarrow>
     int list option \<Rightarrow> 'c rnn_cell \<times> (error + 'a seq_value \<times> 's)"

definition unroll ::
  "('c residual_cell \<Rightarrow> 'c residual_cell) \<Rightarrow> ('a::monoid_add, 's, 'c) cell_unroll \<Rightarrow>
     'c residual_cell \<Rightarrow> nat \<Rightarrow> 'a seq_value \<Rightarrow> 's option \<Rightarrow> layout \<Rightarrow> bool option \<Rightarrow>
     int list option \<Rightarrow> 'c residual_cell \<times> (error + 'a seq_value \<times> 's)" where
  "unroll reset base_unroll self len inputs begin_state layout merge_outputs valid_length =
     (let self1 = reset self;
          self2 = self1\<lparr>base_cell := (base_cell self1)\<lparr>modified := False\<rparr>\<rparr>
      in case base_unroll (base_cell self2) len inputs begin_state layout merge_outputs
                valid_length of
           (bc, Inl e) \<Rightarrow> (self2\<lparr>base_cell := bc\<rparr>, Inl e)
         | (bc, Inr (outputs, states)) \<Rightarrow>
             (self2\<lparr>base_cell := bc\<lparr>modified := True\<rparr>\<rparr>,
              let merge = (case merge_outputs of None \<Rightarrow> is_tensor outputs | Some m \<Rightarrow> m);
                  (inputs1, axis) = format_sequence len inputs layout merge
              in case (case valid_length of
                         None \<Rightarrow> Inr inputs1
                       | Some vl \<Rightarrow>
                           mask_sequence_variable_length inputs1 len vl axis merge) of
                   Inl e \<Rightarrow> Inl e
                 | Inr inputs2 \<Rightarrow>
                     (case (if merge then elemwise_add_value outputs inputs2
                            else (case elemwise_add_all (zip (items outputs) (items inputs2)) of
                                    Inl e \<Rightarrow> Inl e
                                  | Inr l \<Rightarrow> Inr (TensorList l))) of
                        Inl e \<Rightarrow> Inl e
                      | Inr outputs' \<Rightarrow> Inr (outputs', states))))"



section \<open>Projection layer\<close>

text \<open>
  Modelled from the spec: \<open>gluon.nn.Dense\<close> is not part of the sources. A dense layer is
  an affine transform with learnable parameters of its own, a weight matrix with one
  row per output unit and a bias with one entry per output unit, which the framework
  keeps under the layer's prefix (\<open>params\<close>, the parameter store). Without flattening it
  acts on the last axis and keeps the leading ones: every row of an input of shape
  (batch, hidden) is mapped to a row of \<open>units\<close> entries. The engine signals a shape
  mismatch when the parameters do not fit the layer or the input.
\<close>

type_synonym dtype = string

record dense =
  units :: nat
  flatten :: bool
  dense_dtype :: dtype
  dense_prefix :: string

type_synonym 'a param_store = "string \<Rightarrow> 'a list list \<times> 'a list"

definition dot :: "'a::semiring_0 list \<Rightarrow> 'a list \<Rightarrow> 'a" where
  "dot row w = sum_list (map2 (*) row w)"

definition affine :: "'a::semiring_0 list list \<times> 'a list \<Rightarrow> 'a list list \<Rightarrow> 'a list list" where
  "affine wb x = map (\<lambda>row. map2 (\<lambda>w b. dot row w + b) (fst wb) (snd wb)) x"

definition dense_forward ::
  "'a::semiring_0 param_store \<Rightarrow> dense \<Rightarrow> 'a list list \<Rightarrow> error + 'a list list" where
  "dense_forward params d x =
     (let (weight, bias) = params (dense_prefix d) in
      if length weight = units d \<and> length bias = units d \<and>
         list_all (\<lambda>row. list_all (\<lambda>w. length w = length row) weight) x
      then Inr (affine (weight, bias) x)
      else Inl ShapeError)"

text \<open>
  \<open>ArgProj\<close>. The dictionary \<open>args_dim\<close> is a list of pairs in insertion order, the order
  in which \<open>items()\<close> yields them. \<open>str_of_prefix\<close> is the text an f-string gives for the
  optional prefix. Registering the layers as children is bookkeeping of the framework
  and has no part in what the block computes.
\<close>

record 'a arg_proj =
  args_dim :: "(string \<times> nat) list"
  dtype :: dtype
  proj :: "dense list"
  domain_map :: "'a list list list \<Rightarrow> error + 'a list list list"

fun str_of_prefix :: "string option \<Rightarrow> string" where
  "str_of_prefix None = ''None''"
| "str_of_prefix (Some p) = p"

definition ArgProj_init ::
  "(string \<times> nat) list \<Rightarrow> ('a list list list \<Rightarrow> error + 'a list list list) \<Rightarrow> dtype \<Rightarrow>
     string option \<Rightarrow> 'a arg_proj" where
  "ArgProj_init args_dim' domain_map' dtype' prefix =
     \<lparr>args_dim = args_dim',
      dtype = dtype',
      proj = map (\<lambda>(name, dim).
                    \<lparr>units = dim, flatten = False, dense_dtype = dtype',
                     dense_prefix = str_of_prefix prefix @ ''_distr_'' @ name @ ''_''\<rparr>)
               args_dim',
      domain_map = domain_map'\<rparr>"

text \<open>
  The list comprehension \<open>[proj(x) for proj in self.proj]\<close>: the layers are applied in
  order and the first exception ends the loop.
\<close>

fun project_all ::
  "'a::semiring_0 param_store \<Rightarrow> dense list \<Rightarrow> 'a list list \<Rightarrow> error + 'a list list list" where
  "project_all params [] x = Inr []"
| "project_all params (d # ds) x =
     (case dense_forward params d x of
        Inl e \<Rightarrow> Inl e
      | Inr y \<Rightarrow> (case project_all params ds x of Inl e \<Rightarrow> Inl e | Inr ys \<Rightarrow> Inr (y # ys)))"

definition ArgProj_hybrid_forward ::
  "'a::semiring_0 param_store \<Rightarrow> 'a arg_proj \<Rightarrow> 'a list list \<Rightarrow> error + 'a list list list" where
  "ArgProj_hybrid_forward params self x =
     (case project_all params (proj self) x of
        Inl e \<Rightarrow> Inl e
      | Inr params_unbounded \<Rightarrow> domain_map self params_unbounded)"

section \<open>Distribution output\<close>

text \<open>
  A distribution is either one that the distribution class constructs or an
  \<open>AffineTransformedDistribution\<close> around another one, with its optional \<open>loc\<close> and
  \<open>scale\<close>.

  Modelled from the spec: \<open>AffineTransformedDistribution\<close> is not part of the sources.
  Its samples are those of the distribution it wraps under \<open>value * scale + loc\<close>; a
  \<open>scale\<close> that is not given leaves the value unscaled and a \<open>loc\<close> that is not given
  leaves it unshifted. \<open>sample base d w\<close> is the value that \<open>d\<close> draws with the randomness
  \<open>w\<close>, where \<open>base\<close> draws from the constructed distributions.
\<close>

datatype ('d, 't) distribution =
  Distribution 'd
| AffineTransformedDistribution "('d, 't) distribution" "'t option" "'t option"

fun sample :: "('d \<Rightarrow> 'w \<Rightarrow> 't::{times,plus}) \<Rightarrow> ('d, 't) distribution \<Rightarrow> 'w \<Rightarrow> 't" where
  "sample base (Distribution d) w = base d w"
| "sample base (AffineTransformedDistribution distr loc scale) w =
     (let v = sample base distr w;
          v' = (case scale of None \<Rightarrow> v | Some s \<Rightarrow> v * s)
      in case loc of None \<Rightarrow> v' | Some l \<Rightarrow> v' + l)"

text \<open>
  \<open>Output\<close> and \<open>DistributionOutput\<close>. The classes declare \<open>args_dim\<close> and \<open>distr_cls\<close>
  without a value, so an object has them only when a subclass provides them, and
  reading one that is missing raises \<open>AttributeError\<close>; \<open>_dtype\<close> is \<open>float32\<close> unless it is
  assigned. A concrete distribution output is a subclass that overrides the abstract
  members; the object records each override, \<open>None\<close> standing for the member of the base
  class, whose body raises \<open>NotImplementedError\<close>. An overriding \<open>event_shape\<close> is evaluated
  when the property is read, to a shape or an exception. The numeric type is given by
  its name.
\<close>

record ('args, 'd, 't, 'x) distribution_output =
  output_args_dim :: "(string \<times> nat) list option"
  dtype_attr :: dtype
  distr_cls :: "('args \<Rightarrow> error + ('d, 't) distribution) option"
  event_shape_override :: "(error + nat list) option"
  domain_map_override :: "('x list list list \<Rightarrow> error + 'x list list list) option"

definition DistributionOutput_init :: "('args, 'd, 't, 'x) distribution_output" where
  "DistributionOutput_init =
     \<lparr>output_args_dim = None, dtype_attr = ''float32'', distr_cls = None,
      event_shape_override = None, domain_map_override = None\<rparr>"

definition Output_dtype :: "('args, 'd, 't, 'x) distribution_output \<Rightarrow> dtype" where
  "Output_dtype self = dtype_attr self"

definition Output_dtype_setter ::
  "('args, 'd, 't, 'x) distribution_output \<Rightarrow> dtype \<Rightarrow> ('args, 'd, 't, 'x) distribution_output" where
  "Output_dtype_setter self dtype' = self\<lparr>dtype_attr := dtype'\<rparr>"

definition Output_domain_map ::
  "('args, 'd, 't, 'x) distribution_output \<Rightarrow> 'x list list list \<Rightarrow> error + 'x list list list" where
  "Output_domain_map self args =
     (case domain_map_override self of
        None \<Rightarrow> Inl NotImplementedError
      | Some f \<Rightarrow> f args)"

text \<open>
  Modelled from the spec: \<open>gluon.nn.HybridLambda\<close> is not part of the sources. It is the
  block that carries the domain map into the projection. The domain map takes the
  projected tensors; the block needs at least one of them and raises \<open>TypeError\<close> when it
  is called with none, before the function it carries is reached.
\<close>

definition HybridLambda ::
  "('x list list list \<Rightarrow> error + 'x list list list) \<Rightarrow> 'x list list list \<Rightarrow>
     error + 'x list list list" where
  "HybridLambda function args =
     (case args of
        [] \<Rightarrow> Inl TypeError
      | x # rest \<Rightarrow> function (x # rest))"

definition get_args_proj ::
  "('args, 'd, 't, 'x) distribution_output \<Rightarrow> string option \<Rightarrow> error + 'x arg_proj" where
  "get_args_proj self prefix =
     (case output_args_dim self of
        None \<Rightarrow> Inl AttributeError
      | Some args_dim' \<Rightarrow>
          Inr (ArgProj_init args_dim' (HybridLambda (Output_domain_map self))
                 (Output_dtype self) prefix))"

text \<open>
  \<open>distribution\<close>. Each branch evaluates \<open>self.distr_cls(*distr_args)\<close>, which is
  \<open>construct\<close>: the attribute is read and the class is called on the arguments.
\<close>

definition construct ::
  "('args, 'd, 't, 'x) distribution_output \<Rightarrow> 'args \<Rightarrow> error + ('d, 't) distribution" where
  "construct self distr_args =
     (case distr_cls self of
        None \<Rightarrow> Inl AttributeError
      | Some cls \<Rightarrow> cls distr_args)"

definition distribution ::
  "('args, 'd, 't, 'x) distribution_output \<Rightarrow> 'args \<Rightarrow> 't option \<Rightarrow> 't option \<Rightarrow>
     error + ('d, 't) distribution" where
  "distribution self distr_args loc scale =
     (if loc = None \<and> scale = None then construct self distr_args
      else (case construct self distr_args of
              Inl e \<Rightarrow> Inl e
            | Inr distr \<Rightarrow> Inr (AffineTransformedDistribution distr loc scale)))"

definition event_shape :: "('args, 'd, 't, 'x) distribution_output \<Rightarrow> error + nat list" where
  "event_shape self =
     (case event_shape_override self of
        None \<Rightarrow> Inl NotImplementedError
      | Some shape \<Rightarrow> shape)"

definition event_dim :: "('args, 'd, 't, 'x) distribution_output \<Rightarrow> error + nat" where
  "event_dim self =
     (case event_shape self of
        Inl e \<Rightarrow> Inl e
      | Inr shape \<Rightarrow> Inr (length shape))"

definition value_in_support :: "('args, 'd, 't, 'x) distribution_output \<Rightarrow> 'v::zero" where
  "value_in_support self = 0"

text \<open>
  Assignment to a property. Of the properties that the two classes declare only
  \<open>dtype\<close> has a setter; assigning to a property without one raises \<open>AttributeError\<close> and
  leaves the object as it is.
\<close>

datatype property = Dtype | Event_shape | Event_dim | Value_in_support

fun setter ::
  "property \<Rightarrow>
     (('args, 'd, 't, 'x) distribution_output \<Rightarrow> dtype \<Rightarrow> ('args, 'd, 't, 'x) distribution_output)
       option" where
  "setter Dtype = Some Output_dtype_setter"
| "setter Event_shape = None"
| "setter Event_dim = None"
| "setter Value_in_support = None"

definition assign ::
  "property \<Rightarrow> dtype \<Rightarrow> ('args, 'd, 't, 'x) distribution_output \<Rightarrow>
     error + ('args, 'd, 't, 'x) distribution_output" where
  "assign p v self =
     (case setter p of
        None \<Rightarrow> Inl AttributeError
      | Some set_p \<Rightarrow> Inr (set_p self v))"

text \<open>
  A concrete distribution output for the examples: one argument \<open>mu\<close> of width one, a
  distribution class that constructs a distribution from an integer, events of shape
  \<open>(2, 3)\<close> and an identity domain map.
\<close>

definition example_output :: "(int, int, int, int) distribution_output" where
  "example_output =
     \<lparr>output_args_dim = Some [(''mu'', 1)], dtype_attr = ''float32'',
      distr_cls = Some (\<lambda>mean. Inr (Distribution mean)),
      event_shape_override = Some (Inr [2, 3]),
      domain_map_override = Some Inr\<rparr>"

section \<open>Properties of the residual cell\<close>

lemma map2_same: "map2 f xs xs = map (\<lambda>x. f x x) xs"
  by (induction xs) auto

lemma elemwise_add_self:
  "elemwise_add x x = Inr (map (map (\<lambda>v. 2 * v)) (x :: 'a::semiring_1 list list))"
  by (simp add: elemwise_add_def map2_same mult_2)










lemma format_sequence_axis: "snd (format_sequence len inputs layout m) = time_axis layout"
  by (simp add: format_sequence_def Let_def)

lemma unroll_after_base_aux:
  fixes base_unroll :: "('a::monoid_add, 's, 'c) cell_unroll"
  assumes "base_unroll ((base_cell (reset self))\<lparr>modified := False\<rparr>) len inputs begin_state
             layout merge_outputs valid_length = (bc, Inr (outputs, states))"
  defines "merge \<equiv> (case merge_outputs of None \<Rightarrow> is_tensor outputs | Some m \<Rightarrow> m)"
  shows "unroll reset base_unroll self len inputs begin_state layout merge_outputs valid_length =
     ((reset self)\<lparr>base_cell := bc\<lparr>modified := True\<rparr>\<rparr>,
      case (case valid_length of
              None \<Rightarrow> Inr (fst (format_sequence len inputs layout merge))
            | Some vl \<Rightarrow>
                mask_sequence_variable_length (fst (format_sequence len inputs layout merge))
                  len vl (time_axis layout) merge) of
        Inl e \<Rightarrow> Inl e
      | Inr inputs2 \<Rightarrow>
          (case (if merge then elemwise_add_value outputs inputs2
                 else (case elemwise_add_all (zip (items outputs) (items inputs2)) of
                         Inl e \<Rightarrow> Inl e
                       | Inr l \<Rightarrow> Inr (TensorList l))) of
             Inl e \<Rightarrow> Inl e
           | Inr outputs' \<Rightarrow> Inr (outputs', states)))"
  by (auto simp: unroll_def Let_def assms(1) merge_def case_prod_beta format_sequence_axis
        split: option.split sum.split)

lemma unroll_after_base:
  fixes base_unroll :: "('a::monoid_add, 's, 'c) cell_unroll"
  assumes base: "base_unroll ((base_cell (reset self))\<lparr>modified := False\<rparr>) len inputs
             begin_state layout merge_outputs valid_length = (bc, Inr (outputs, states))"
    and merge: "(case merge_outputs of None \<Rightarrow> is_tensor outputs | Some m \<Rightarrow> m) = merge"
  shows "unroll reset base_unroll self len inputs begin_state layout merge_outputs valid_length =
     ((reset self)\<lparr>base_cell := bc\<lparr>modified := True\<rparr>\<rparr>,
      case (case valid_length of
              None \<Rightarrow> Inr (fst (format_sequence len inputs layout merge))
            | Some vl \<Rightarrow>
                mask_sequence_variable_length (fst (format_sequence len inputs layout merge))
                  len vl (time_axis layout) merge) of
        Inl e \<Rightarrow> Inl e
      | Inr inputs2 \<Rightarrow>
          (case (if merge then elemwise_add_value outputs inputs2
                 else (case elemwise_add_all (zip (items outputs) (items inputs2)) of
                         Inl e \<Rightarrow> Inl e
                       | Inr l \<Rightarrow> Inr (TensorList l))) of
             Inl e \<Rightarrow> Inl e
           | Inr outputs' \<Rightarrow> Inr (outputs', states)))"
  using unroll_after_base_aux
    [where base_unroll = base_unroll and reset = reset and self = self, OF base]
  unfolding merge .

lemma format_sequence_convention:
  "is_tensor (fst (format_sequence len inputs layout merge)) = merge"
  by (simp add: format_sequence_def Let_def split: seq_value.splits)


lemma elemwise_add_all_ok:
  "list_all (\<lambda>(x, y). map length x = map length y) ps \<Longrightarrow>
     elemwise_add_all ps = Inr (map (\<lambda>(x, y). map2 (map2 (+)) x y) ps)"
  by (induction ps) (auto simp: elemwise_add_def)

lemma elemwise_add_all_bad:
  "\<not> list_all (\<lambda>(x, y). map length x = map length y) ps \<Longrightarrow>
     elemwise_add_all ps = Inl ShapeError"
  by (induction ps) (auto simp: elemwise_add_def)

lemma mask_length:
  "mask_sequence_variable_length d len vl axis merge = Inr m \<Longrightarrow>
     length (items m) = length (items d)"
  by (auto simp: mask_sequence_variable_length_def mask_steps_def
      split: seq_value.splits sum.splits if_splits)






text \<open>
  C4. A single step of the residual cell calls the wrapped cell and, when that returns
  \<open>(output, new_states)\<close>, returns the elementwise sum of \<open>output\<close> and \<open>inputs\<close> together
  with \<open>new_states\<close> as the wrapped cell produced them (the engine signals a shape
  mismatch when the two shapes differ). For the wrapped cell that returns its input as
  output and leaves the state as it is, the step returns \<open>(2 * x, s)\<close> on \<open>(x, s)\<close>.
\<close>

theorem hybrid_forward_residual:
  fixes base_call :: "('a::semiring_1, 's, 'c) cell_call"
  assumes "base_call (base_cell self) inputs states = (bc, Inr (output, new_states))"
  shows "snd (hybrid_forward base_call self inputs states) =
           (if map length output = map length inputs
            then Inr (map2 (map2 (+)) output inputs, new_states)
            else Inl ShapeError) \<and>
         snd (hybrid_forward (\<lambda>c x s. (c, Inr (x, s))) self inputs states) =
           Inr (map (map (\<lambda>v. 2 * v)) inputs, states)"
proof -
  have "snd (hybrid_forward base_call self inputs states) =
          (if map length output = map length inputs
           then Inr (map2 (map2 (+)) output inputs, new_states)
           else Inl ShapeError)"
    using assms by (simp add: hybrid_forward_def elemwise_add_def)
  moreover have "snd (hybrid_forward (\<lambda>c x s. (c, Inr (x, s))) self inputs states) =
          Inr (map (map (\<lambda>v. 2 * v)) inputs, states)"
    by (simp add: hybrid_forward_def elemwise_add_self)
  ultimately show ?thesis by simp
qed

theorem hybrid_forward_residual_witness:
  "snd (hybrid_forward (\<lambda>c x s. (c, Inr (map (map (\<lambda>v. v + 10)) x, Suc s)))
          \<lparr>base_cell = \<lparr>modified = True, attrs = ()\<rparr>, counter = 0\<rparr>
          [[1, 2], [3, 4 :: int]] (5 :: nat)) =
     Inr ([[12, 14], [16, 18]], 6) \<and>
   snd (hybrid_forward (\<lambda>c x s. (c, Inr (x, s)))
          \<lparr>base_cell = \<lparr>modified = True, attrs = ()\<rparr>, counter = 0\<rparr>
          [[1, 2], [3, 4 :: int]] (5 :: nat)) =
     Inr ([[2, 4], [6, 8]], 5)"
  using hybrid_forward_residual
    [of "\<lambda>c x s. (c, Inr (map (map (\<lambda>v. v + 10)) x, Suc s))"
        "\<lparr>base_cell = \<lparr>modified = True, attrs = ()\<rparr>, counter = 0\<rparr>"
        "[[1, 2], [3, 4 :: int]]" "5 :: nat"
        "\<lparr>modified = True, attrs = ()\<rparr>" "[[11, 12], [13, 14]]" 6]
  by simp




text \<open>
  C5 as the claim states it fails: when the wrapped cell's \<open>unroll\<close> raises, the call ends
  with the exception and the flag of the wrapped cell is left disabled. Here the wrapped
  cell refuses a sequence whose number of steps differs from \<open>length\<close>.
\<close>

theorem unroll_flag_left_disabled_counterexample:
  "\<not> modified (base_cell (fst (unroll id
        (\<lambda>c len ins bs lay mo vl.
           if length (items ins) = len then (c, Inr (ins, ()))
           else (c, Inl (Raised ''length mismatch'')))
        \<lparr>base_cell = \<lparr>modified = True, attrs = ()\<rparr>, counter = 0\<rparr> 2
        (TensorList [[[1 :: int]]]) (None :: unit option) NTC None None)))"
  by (simp add: unroll_def)

text \<open>
  C5, amended. The wrapped cell's \<open>unroll\<close> runs on the cell with its flag disabled. When
  it returns, the flag is enabled again before anything else happens, so it is enabled
  at the end of the call whether the rest of \<open>unroll\<close> returns or raises; when it raises,
  the exception ends the call and the cell is left as the wrapped \<open>unroll\<close> left it.
\<close>

theorem unroll_modified_flag:
  fixes base_unroll :: "('a::monoid_add, 's, 'c) cell_unroll"
  shows "\<not> modified ((base_cell (reset self))\<lparr>modified := False\<rparr>) \<and>
         (case base_unroll ((base_cell (reset self))\<lparr>modified := False\<rparr>) len inputs
                 begin_state layout merge_outputs valid_length of
            (bc, Inl e) \<Rightarrow>
              unroll reset base_unroll self len inputs begin_state layout merge_outputs
                valid_length = ((reset self)\<lparr>base_cell := bc\<rparr>, Inl e)
          | (bc, Inr r) \<Rightarrow>
              fst (unroll reset base_unroll self len inputs begin_state layout merge_outputs
                     valid_length) = (reset self)\<lparr>base_cell := bc\<lparr>modified := True\<rparr>\<rparr> \<and>
              modified (base_cell (fst (unroll reset base_unroll self len inputs begin_state
                     layout merge_outputs valid_length))))"
  by (simp add: unroll_def Let_def split: prod.split sum.split)

theorem unroll_modified_flag_witness:
  "modified (base_cell (fst (unroll id
        (\<lambda>c len ins bs lay mo vl. (c, Inr (Tensor [[[1 :: int]], [[2]]], ())))
        \<lparr>base_cell = \<lparr>modified = True, attrs = ()\<rparr>, counter = 0\<rparr> 1
        (Tensor [[[1 :: int]]]) (None :: unit option) NTC None None))) \<and>
   snd (unroll id
        (\<lambda>c len ins bs lay mo vl. (c, Inr (Tensor [[[1 :: int]], [[2]]], ())))
        \<lparr>base_cell = \<lparr>modified = True, attrs = ()\<rparr>, counter = 0\<rparr> 1
        (Tensor [[[1 :: int]]]) (None :: unit option) NTC None None) = Inl ShapeError"
proof -
  have "snd (unroll id
        (\<lambda>c len ins bs lay mo vl. (c, Inr (Tensor [[[1 :: int]], [[2]]], ())))
        \<lparr>base_cell = \<lparr>modified = True, attrs = ()\<rparr>, counter = 0\<rparr> 1
        (Tensor [[[1 :: int]]]) (None :: unit option) NTC None None) = Inl ShapeError"
    by (simp add: unroll_def format_sequence_def elemwise_add3_def)
  then show ?thesis
    using unroll_modified_flag
      [of id "\<lparr>base_cell = \<lparr>modified = True, attrs = ()\<rparr>, counter = 0\<rparr>"
          "\<lambda>c len ins bs lay mo vl. (c, Inr (Tensor [[[1 :: int]], [[2]]], ()))"
          1 "Tensor [[[1 :: int]]]" "None :: unit option" NTC None None]
    by simp
qed

text \<open>
  C6. When \<open>merge_outputs\<close> is not given and the wrapped cell's \<open>unroll\<close> returns, the
  convention is read off its outputs: merged exactly when they are one tensor. The
  inputs are normalised into that convention (the normalised inputs are one tensor
  exactly when the outputs are), masked when a valid length is given, and combined with
  the outputs in that convention; a result that is returned has the convention of the
  outputs and the states of the wrapped cell.
\<close>

theorem unroll_infers_merge_convention:
  fixes base_unroll :: "('a::monoid_add, 's, 'c) cell_unroll"
  assumes base: "base_unroll ((base_cell (reset self))\<lparr>modified := False\<rparr>) len inputs begin_state
             layout None valid_length = (bc, Inr (outputs, states))"
  shows "is_tensor (fst (format_sequence len inputs layout (is_tensor outputs))) =
           is_tensor outputs \<and>
         snd (unroll reset base_unroll self len inputs begin_state layout None valid_length) =
           (case (case valid_length of
                    None \<Rightarrow> Inr (fst (format_sequence len inputs layout (is_tensor outputs)))
                  | Some vl \<Rightarrow>
                      mask_sequence_variable_length
                        (fst (format_sequence len inputs layout (is_tensor outputs)))
                        len vl (time_axis layout) (is_tensor outputs)) of
              Inl e \<Rightarrow> Inl e
            | Inr inputs2 \<Rightarrow>
                (case (if is_tensor outputs then elemwise_add_value outputs inputs2
                       else (case elemwise_add_all (zip (items outputs) (items inputs2)) of
                               Inl e \<Rightarrow> Inl e
                             | Inr l \<Rightarrow> Inr (TensorList l))) of
                   Inl e \<Rightarrow> Inl e
                 | Inr outputs' \<Rightarrow> Inr (outputs', states))) \<and>
         (case snd (unroll reset base_unroll self len inputs begin_state layout None
                      valid_length) of
            Inl e \<Rightarrow> True
          | Inr (result, states') \<Rightarrow> is_tensor result = is_tensor outputs \<and> states' = states)"
proof -
  have u: "snd (unroll reset base_unroll self len inputs begin_state layout None valid_length) =
           (case (case valid_length of
                    None \<Rightarrow> Inr (fst (format_sequence len inputs layout (is_tensor outputs)))
                  | Some vl \<Rightarrow>
                      mask_sequence_variable_length
                        (fst (format_sequence len inputs layout (is_tensor outputs)))
                        len vl (time_axis layout) (is_tensor outputs)) of
              Inl e \<Rightarrow> Inl e
            | Inr inputs2 \<Rightarrow>
                (case (if is_tensor outputs then elemwise_add_value outputs inputs2
                       else (case elemwise_add_all (zip (items outputs) (items inputs2)) of
                               Inl e \<Rightarrow> Inl e
                             | Inr l \<Rightarrow> Inr (TensorList l))) of
                   Inl e \<Rightarrow> Inl e
                 | Inr outputs' \<Rightarrow> Inr (outputs', states)))"
    using unroll_after_base[where base_unroll = base_unroll and reset = reset and self = self
        and merge = "is_tensor outputs", OF base] by simp
  have t: "(case snd (unroll reset base_unroll self len inputs begin_state layout None
                      valid_length) of
            Inl e \<Rightarrow> True
          | Inr (result, states') \<Rightarrow> is_tensor result = is_tensor outputs \<and> states' = states)"
    unfolding u
    by (cases outputs)
       (auto split: sum.splits option.splits seq_value.splits
             elim!: elemwise_add_value.elims)
  from u t show ?thesis by (simp add: format_sequence_convention)
qed

theorem unroll_infers_merge_convention_witness:
  "snd (unroll id (\<lambda>c len ins bs lay mo vl. (c, Inr (Tensor [[[10], [20 :: int]]], ())))
          \<lparr>base_cell = \<lparr>modified = True, attrs = ()\<rparr>, counter = 0\<rparr> 2 (TensorList [[[1]], [[2]]]) (None :: unit option) NTC None None) =
     Inr (Tensor [[[11], [22]]], ()) \<and>
   is_tensor (fst (format_sequence 2 (TensorList [[[1]], [[2 :: int]]]) NTC True))"
proof -
  let ?bu = "\<lambda>(c :: unit rnn_cell) (len :: nat) (ins :: int seq_value) (bs :: unit option)
               (lay :: layout) (mo :: bool option) (vl :: int list option).
               (c, Inr (Tensor [[[10], [20 :: int]]], ())
                  :: error + int seq_value \<times> unit)"
  let ?self = "\<lparr>base_cell = \<lparr>modified = True, attrs = ()\<rparr>, counter = 0\<rparr>"
  have base: "?bu ((base_cell (id ?self))\<lparr>modified := False\<rparr>) 2 (TensorList [[[1]], [[2]]])
                None NTC None None =
      (\<lparr>modified = False, attrs = ()\<rparr>, Inr (Tensor [[[10], [20 :: int]]], ()))"
    by simp
  from unroll_infers_merge_convention
    [where base_unroll = ?bu and reset = id and self = ?self and len = 2
       and inputs = "TensorList [[[1]], [[2]]]" and begin_state = None and layout = NTC
       and valid_length = None, OF base]
  show ?thesis
    by (simp add: format_sequence_def elemwise_add3_def)
qed

text \<open>
  C10. In the list convention, when the wrapped cell's \<open>unroll\<close> returns, a combined
  output that is returned is a list whose length is the minimum of the number of outputs
  of the wrapped cell and the number of normalised input steps. The pairs that \<open>zip\<close> forms
  are the only ones added: when the inputs are normalised and masked without exception
  and the tensors of each pair have equal shapes, the call returns their sums and the
  states whatever the two lengths are, and otherwise the engine's shape error ends it.
\<close>

theorem unroll_list_truncates:
  fixes base_unroll :: "('a::monoid_add, 's, 'c) cell_unroll"
  assumes base: "base_unroll ((base_cell (reset self))\<lparr>modified := False\<rparr>) len inputs begin_state
             layout merge_outputs valid_length = (bc, Inr (outputs, states))"
    and merge: "(case merge_outputs of None \<Rightarrow> is_tensor outputs | Some m \<Rightarrow> m) = False"
  shows "(case snd (unroll reset base_unroll self len inputs begin_state layout merge_outputs
                      valid_length) of
            Inl e \<Rightarrow> True
          | Inr (result, states') \<Rightarrow>
              is_tensor result = False \<and>
              length (items result) =
                min (length (items outputs))
                    (length (items (fst (format_sequence len inputs layout False))))) \<and>
         (case (case valid_length of
                  None \<Rightarrow> Inr (fst (format_sequence len inputs layout False))
                | Some vl \<Rightarrow>
                    mask_sequence_variable_length (fst (format_sequence len inputs layout False))
                      len vl (time_axis layout) False) of
            Inl e \<Rightarrow> snd (unroll reset base_unroll self len inputs begin_state layout
                           merge_outputs valid_length) = Inl e
          | Inr inputs2 \<Rightarrow>
              if list_all (\<lambda>(x, y). map length x = map length y)
                   (zip (items outputs) (items inputs2))
              then snd (unroll reset base_unroll self len inputs begin_state layout
                          merge_outputs valid_length) =
                     Inr (TensorList (map (\<lambda>(x, y). map2 (map2 (+)) x y)
                                        (zip (items outputs) (items inputs2))), states)
              else snd (unroll reset base_unroll self len inputs begin_state layout
                          merge_outputs valid_length) = Inl ShapeError)"
proof -
  let ?in1 = "fst (format_sequence len inputs layout False)"
  let ?prep = "(case valid_length of
                  None \<Rightarrow> Inr ?in1
                | Some vl \<Rightarrow>
                    mask_sequence_variable_length ?in1 len vl (time_axis layout) False)"
  let ?u = "snd (unroll reset base_unroll self len inputs begin_state layout merge_outputs
                      valid_length)"
  have u: "?u = (case ?prep of
        Inl e \<Rightarrow> Inl e
      | Inr inputs2 \<Rightarrow>
          (case (if False then elemwise_add_value outputs inputs2
                 else (case elemwise_add_all (zip (items outputs) (items inputs2)) of
                         Inl e \<Rightarrow> Inl e
                       | Inr l \<Rightarrow> Inr (TensorList l))) of
             Inl e \<Rightarrow> Inl e
           | Inr outputs' \<Rightarrow> Inr (outputs', states)))"
    using unroll_after_base[where base_unroll = base_unroll and reset = reset and self = self,
        OF base merge] by simp
  show ?thesis
  proof (cases ?prep)
    case (Inl e)
    with u show ?thesis by simp
  next
    case (Inr inputs2)
    have len2: "length (items inputs2) = length (items ?in1)"
      using Inr mask_length by (cases valid_length) auto
    show ?thesis
    proof (cases "list_all (\<lambda>(x, y). map length x = map length y)
                   (zip (items outputs) (items inputs2))")
      case True
      from elemwise_add_all_ok[OF True] u Inr True len2 show ?thesis by simp
    next
      case False
      from elemwise_add_all_bad[OF False] u Inr False show ?thesis by simp
    qed
  qed
qed

theorem unroll_list_truncates_witness:
  "snd (unroll id
          (\<lambda>c len ins bs lay mo vl. (c, Inr (TensorList [[[10]], [[20]], [[30 :: int]]], ())))
          \<lparr>base_cell = \<lparr>modified = True, attrs = ()\<rparr>, counter = 0\<rparr> 2 (TensorList [[[1]], [[2]]]) (None :: unit option) NTC None None) =
     Inr (TensorList [[[11]], [[22]]], ()) \<and>
   min (length (items (TensorList [[[10]], [[20]], [[30 :: int]]])))
       (length (items (fst (format_sequence 2 (TensorList [[[1]], [[2 :: int]]]) NTC False)))) = 2"
proof -
  let ?bu = "\<lambda>(c :: unit rnn_cell) (len :: nat) (ins :: int seq_value) (bs :: unit option)
               (lay :: layout) (mo :: bool option) (vl :: int list option).
               (c, Inr (TensorList [[[10]], [[20]], [[30 :: int]]], ())
                  :: error + int seq_value \<times> unit)"
  let ?self = "\<lparr>base_cell = \<lparr>modified = True, attrs = ()\<rparr>, counter = 0\<rparr>"
  have base: "?bu ((base_cell (id ?self))\<lparr>modified := False\<rparr>) 2 (TensorList [[[1]], [[2]]])
                None NTC None None =
      (\<lparr>modified = False, attrs = ()\<rparr>, Inr (TensorList [[[10]], [[20]], [[30 :: int]]], ()))"
    by simp
  have merge: "(case (None :: bool option) of
                  None \<Rightarrow> is_tensor (TensorList [[[10]], [[20]], [[30 :: int]]])
                | Some m \<Rightarrow> m) = False"
    by simp
  from unroll_list_truncates
    [where base_unroll = ?bu and reset = id and self = ?self and len = 2
       and inputs = "TensorList [[[1]], [[2]]]" and begin_state = None and layout = NTC
       and merge_outputs = None and valid_length = None, OF base merge]
  show ?thesis
    by (simp add: format_sequence_def)
qed

section \<open>Properties of the projection layer and the distribution output\<close>

lemma project_all_ok:
  "list_all (\<lambda>d. dense_forward params d x = Inr (f d)) ds \<Longrightarrow>
     project_all params ds x = Inr (map f ds)"
  by (induction ds) auto

lemma affine_shape:
  "length (fst wb) = n \<Longrightarrow> length (snd wb) = n \<Longrightarrow>
     length (affine wb x) = length x \<and> list_all (\<lambda>row. length row = n) (affine wb x)"
  by (simp add: affine_def list_all_iff)

lemma dense_forward_ok:
  fixes params :: "'a::semiring_0 param_store"
  assumes "list_all (\<lambda>row. length row = H) x"
    and "length (fst (params (dense_prefix d))) = units d"
    and "length (snd (params (dense_prefix d))) = units d"
    and "list_all (\<lambda>w. length w = H) (fst (params (dense_prefix d)))"
  shows "dense_forward params d x = Inr (affine (params (dense_prefix d)) x)"
  using assms by (auto simp: dense_forward_def list_all_iff split: prod.splits)

text \<open>
  C3. For widths \<open>w_1 .. w_n\<close> under distinct names, an identity domain map, an input of
  shape \<open>(B, H)\<close> and layer parameters that fit it, the projection returns what the domain
  map returns: the \<open>n\<close> tensors that the layers produce in the configured order. The
  tensor of the \<open>i\<close>-th argument is the affine transform of the input under the parameters
  kept for that argument and has shape \<open>(B, w_i)\<close>. The layers are built without
  flattening, and no two of them share a prefix, so each has parameters of its own.
\<close>

theorem arg_proj_shapes:
  fixes params :: "'a::semiring_0 param_store"
  defines "pfx \<equiv> (\<lambda>prefix name. str_of_prefix prefix @ ''_distr_'' @ name @ ''_'')"
  assumes x: "length x = B" "list_all (\<lambda>row. length row = H) x"
    and names: "distinct (map fst args_dim')"
    and params: "list_all (\<lambda>(name, w).
                   length (fst (params (pfx prefix name))) = w \<and>
                   length (snd (params (pfx prefix name))) = w \<and>
                   list_all (\<lambda>wr. length wr = H) (fst (params (pfx prefix name)))) args_dim'"
  shows "\<exists>ys. ArgProj_hybrid_forward params (ArgProj_init args_dim' Inr dtype' prefix) x = Inr ys \<and>
           ys = map (\<lambda>(name, w). affine (params (pfx prefix name)) x) args_dim' \<and>
           length ys = length args_dim' \<and>
           (\<forall>i<length args_dim'.
              length (ys ! i) = B \<and>
              list_all (\<lambda>row. length row = snd (args_dim' ! i)) (ys ! i)) \<and>
           map dense_prefix (proj (ArgProj_init args_dim' Inr dtype' prefix :: 'a arg_proj)) =
             map (\<lambda>(name, w). pfx prefix name) args_dim' \<and>
           distinct (map dense_prefix
                       (proj (ArgProj_init args_dim' Inr dtype' prefix :: 'a arg_proj))) \<and>
           list_all (\<lambda>d. \<not> flatten d)
             (proj (ArgProj_init args_dim' Inr dtype' prefix :: 'a arg_proj))"
proof -
  let ?self = "ArgProj_init args_dim' Inr dtype' prefix :: 'a arg_proj"
  let ?ys = "map (\<lambda>(name, w). affine (params (pfx prefix name)) x) args_dim'"
  have each: "list_all (\<lambda>d. dense_forward params d x = Inr (affine (params (dense_prefix d)) x))
                (proj ?self)"
    using params x(2)
    by (auto simp: ArgProj_init_def list_all_iff pfx_def intro!: dense_forward_ok)
  have "project_all params (proj ?self) x =
          Inr (map (\<lambda>d. affine (params (dense_prefix d)) x) (proj ?self))"
    by (rule project_all_ok[OF each])
  also have "map (\<lambda>d. affine (params (dense_prefix d)) x) (proj ?self) = ?ys"
    by (simp add: ArgProj_init_def pfx_def case_prod_beta)
  finally have fwd: "ArgProj_hybrid_forward params ?self x = Inr ?ys"
    by (simp add: ArgProj_hybrid_forward_def ArgProj_init_def)
  have shapes: "\<forall>i<length args_dim'.
              length (?ys ! i) = B \<and>
              list_all (\<lambda>row. length row = snd (args_dim' ! i)) (?ys ! i)"
  proof (intro allI impI)
    fix i assume i: "i < length args_dim'"
    obtain name w where nw: "args_dim' ! i = (name, w)" by (cases "args_dim' ! i")
    from params i nw have "length (fst (params (pfx prefix name))) = w"
      "length (snd (params (pfx prefix name))) = w"
      by (auto simp: list_all_length)
    from affine_shape[OF this, of x] i nw x(1)
    show "length (?ys ! i) = B \<and> list_all (\<lambda>row. length row = snd (args_dim' ! i)) (?ys ! i)"
      by simp
  qed
  have pre: "map dense_prefix (proj ?self) = map (\<lambda>(name, w). pfx prefix name) args_dim'"
    by (simp add: ArgProj_init_def pfx_def case_prod_beta)
  have "map (\<lambda>(name, w). pfx prefix name) args_dim' = map (pfx prefix) (map fst args_dim')"
    by (simp add: case_prod_beta)
  moreover have "distinct (map (pfx prefix) (map fst args_dim'))"
  proof -
    have "inj_on (pfx prefix) (set (map fst args_dim'))"
      by (simp add: inj_on_def pfx_def)
    with names show ?thesis using distinct_map by blast
  qed
  ultimately have dist: "distinct (map dense_prefix (proj ?self))" by (simp only: pre)
  have nofl: "list_all (\<lambda>d. \<not> flatten d) (proj ?self)"
    by (simp add: ArgProj_init_def list_all_iff case_prod_beta)
  have len: "length ?ys = length args_dim'" by simp
  show ?thesis
    by (intro exI[of _ ?ys] conjI refl fwd len shapes pre dist nofl)
qed

theorem arg_proj_shapes_witness:
  "ArgProj_hybrid_forward
     (\<lambda>p. if p = ''p_distr_mu_'' then ([[1, 2]], [0])
          else if p = ''p_distr_sigma_'' then ([[1, 0], [0, 1]], [10, 20])
          else ([], []))
     (ArgProj_init [(''mu'', 1), (''sigma'', 2)] Inr ''float32'' (Some ''p''))
     [[3, 4 :: int]] =
   Inr [[[11]], [[13, 24]]]"
proof -
  let ?params = "\<lambda>p. if p = ''p_distr_mu_'' then ([[1, 2]], [0])
          else if p = ''p_distr_sigma_'' then ([[1, 0], [0, 1]], [10, 20 :: int])
          else ([], [])"
  have x: "length [[3, 4 :: int]] = 1" "list_all (\<lambda>row. length row = 2) [[3, 4 :: int]]"
    by simp_all
  have names: "distinct (map fst [(''mu'', 1 :: nat), (''sigma'', 2)])"
    by simp
  have params: "list_all (\<lambda>(name, w).
                   length (fst (?params (str_of_prefix (Some ''p'') @ ''_distr_'' @ name @ ''_''))) = w \<and>
                   length (snd (?params (str_of_prefix (Some ''p'') @ ''_distr_'' @ name @ ''_''))) = w \<and>
                   list_all (\<lambda>wr. length wr = 2)
                     (fst (?params (str_of_prefix (Some ''p'') @ ''_distr_'' @ name @ ''_''))))
                [(''mu'', 1 :: nat), (''sigma'', 2)]"
    by simp
  from arg_proj_shapes[of "[[3, 4 :: int]]" 1 2 "[(''mu'', 1), (''sigma'', 2)]" ?params
      "Some ''p''" "''float32''", OF x names params]
  show ?thesis
    by (simp add: affine_def dot_def)
qed

text \<open>
  C2. Without \<open>loc\<close> and without \<open>scale\<close>, \<open>distribution\<close> returns what the distribution
  class constructs from the arguments, with nothing around it. With at least one of
  them it constructs the same distribution and returns it inside an
  \<open>AffineTransformedDistribution\<close> that holds \<open>loc\<close> and \<open>scale\<close>; an exception of the
  constructor propagates. A sample of the wrapped distribution with both given is the
  sample of the constructed one times \<open>scale\<close> plus \<open>loc\<close>.
\<close>

theorem distribution_raw_or_affine:
  fixes self :: "('args, 'd, 't::{times,plus}, 'x) distribution_output"
  assumes "distr_cls self = Some cls"
  shows "distribution self distr_args None None = cls distr_args \<and>
         (loc \<noteq> None \<or> scale \<noteq> None \<longrightarrow>
            distribution self distr_args loc scale =
              (case cls distr_args of
                 Inl e \<Rightarrow> Inl e
               | Inr distr \<Rightarrow> Inr (AffineTransformedDistribution distr loc scale))) \<and>
         (cls distr_args = Inr distr \<longrightarrow>
            distribution self distr_args (Some l) (Some s) =
              Inr (AffineTransformedDistribution distr (Some l) (Some s)) \<and>
            sample base (AffineTransformedDistribution distr (Some l) (Some s)) w =
              sample base distr w * s + l)"
  using assms by (auto simp: distribution_def construct_def)

theorem distribution_raw_or_affine_witness:
  "distribution example_output 5 None None = Inr (Distribution 5) \<and>
   distribution example_output 5 None (Some 2) =
     Inr (AffineTransformedDistribution (Distribution 5) None (Some 2)) \<and>
   distribution example_output 5 (Some 1) (Some 2) =
     Inr (AffineTransformedDistribution (Distribution 5) (Some 1) (Some 2)) \<and>
   sample (\<lambda>mean w. mean + w) (AffineTransformedDistribution (Distribution 5) (Some 1) (Some 2))
     (3 :: int) = 17"
proof -
  have cls: "distr_cls example_output = Some (\<lambda>mean. Inr (Distribution mean))"
    by (simp add: example_output_def)
  from distribution_raw_or_affine
    [OF cls, of 5 None "Some 2" "Distribution 5" 1 2 "\<lambda>mean w. mean + w" 3]
  show ?thesis by simp
qed

text \<open>
  C7. \<open>event_dim\<close> is computed from \<open>event_shape\<close> whenever it is read: for a concrete
  distribution output, whose \<open>event_shape\<close> yields a shape, it is the length of that
  shape, and an exception of \<open>event_shape\<close> is the exception of \<open>event_dim\<close>. It has no
  setter: assigning to it raises \<open>AttributeError\<close>, and an assignment to a property that
  succeeds changes neither \<open>event_shape\<close> nor \<open>event_dim\<close>.
\<close>

theorem event_dim_is_length_of_event_shape:
  fixes self :: "('args, 'd, 't, 'x) distribution_output"
  shows "(event_shape self = Inr shape \<longrightarrow> event_dim self = Inr (length shape)) \<and>
         (event_shape self = Inl e \<longrightarrow> event_dim self = Inl e) \<and>
         assign Event_dim v self = Inl AttributeError \<and>
         (assign p v self = Inr self' \<longrightarrow>
            event_shape self' = event_shape self \<and> event_dim self' = event_dim self)"
  by (cases p) (auto simp: event_dim_def event_shape_def assign_def Output_dtype_setter_def)

theorem event_dim_is_length_of_event_shape_witness:
  "event_shape example_output = Inr [2, 3] \<and>
   event_dim example_output = Inr 2 \<and>
   assign Dtype ''float64'' example_output =
     Inr (example_output\<lparr>dtype_attr := ''float64''\<rparr>) \<and>
   event_dim (example_output\<lparr>dtype_attr := ''float64''\<rparr>) = Inr 2"
  using event_dim_is_length_of_event_shape
    [of example_output "[2, 3]" NotImplementedError "''float64''" Dtype
        "example_output\<lparr>dtype_attr := ''float64''\<rparr>"]
  by (simp add: event_shape_def assign_def Output_dtype_setter_def example_output_def)

text \<open>
  C8. On a distribution output that overrides neither member, \<open>domain_map\<close> raises
  \<open>NotImplementedError\<close> for every argument tuple and reading \<open>event_shape\<close> raises
  \<open>NotImplementedError\<close> (and so does \<open>event_dim\<close>, which reads it); no default is
  returned. When such an object has its \<open>args_dim\<close>, the projection that \<open>get_args_proj\<close>
  builds for it raises the same exception once its layers have produced their tensors;
  with no argument at all there is no tensor, and the block around the domain map
  raises \<open>TypeError\<close> before the domain map is reached.
\<close>

theorem abstract_members_not_implemented:
  fixes self :: "('args, 'd, 't, 'x::semiring_0) distribution_output"
  shows "(domain_map_override self = None \<longrightarrow>
            Output_domain_map self args = Inl NotImplementedError \<and>
            (get_args_proj self prefix = Inr block \<and>
             project_all params (proj block) x = Inr ys \<longrightarrow>
               ArgProj_hybrid_forward params block x =
                 (if ys = [] then Inl TypeError else Inl NotImplementedError))) \<and>
         (event_shape_override self = None \<longrightarrow>
            event_shape self = Inl NotImplementedError \<and>
            event_dim self = Inl NotImplementedError)"
  by (auto simp: Output_domain_map_def event_shape_def event_dim_def get_args_proj_def
      ArgProj_hybrid_forward_def ArgProj_init_def HybridLambda_def
      split: option.splits list.splits)

theorem abstract_members_not_implemented_witness:
  "Output_domain_map (DistributionOutput_init :: (int, int, int, int) distribution_output)
     [[[1]]] = Inl NotImplementedError \<and>
   event_shape (DistributionOutput_init :: (int, int, int, int) distribution_output) =
     Inl NotImplementedError \<and>
   event_dim (DistributionOutput_init :: (int, int, int, int) distribution_output) =
     Inl NotImplementedError \<and>
   ArgProj_hybrid_forward (\<lambda>p. ([[2]], [1]))
     (ArgProj_init [(''mu'', 1)]
        (HybridLambda (Output_domain_map (example_output\<lparr>domain_map_override := None\<rparr>)))
        ''float32'' None)
     [[3]] = Inl NotImplementedError"
proof -
  have a: "domain_map_override
             (DistributionOutput_init :: (int, int, int, int) distribution_output) = None"
    "event_shape_override
       (DistributionOutput_init :: (int, int, int, int) distribution_output) = None"
    by (simp_all add: DistributionOutput_init_def)
  have b: "domain_map_override (example_output\<lparr>domain_map_override := None\<rparr>) = None"
    by simp
  have c: "get_args_proj (example_output\<lparr>domain_map_override := None\<rparr>) None =
             Inr (ArgProj_init [(''mu'', 1)]
                    (HybridLambda
                       (Output_domain_map (example_output\<lparr>domain_map_override := None\<rparr>)))
                    ''float32'' None)"
    by (simp add: get_args_proj_def example_output_def Output_dtype_def)
  have d: "project_all (\<lambda>p. ([[2]], [1]))
             (proj (ArgProj_init [(''mu'', 1)]
                    (HybridLambda
                       (Output_domain_map (example_output\<lparr>domain_map_override := None\<rparr>)))
                    ''float32'' None)) [[3 :: int]] = Inr [[[7]]]"
    by (simp add: ArgProj_init_def dense_forward_def affine_def dot_def)
  from abstract_members_not_implemented
         [of "DistributionOutput_init :: (int, int, int, int) distribution_output" "[[[1]]]"]
       abstract_members_not_implemented
         [of "example_output\<lparr>domain_map_override := None\<rparr>" "[]" None _
             "\<lambda>p. ([[2]], [1])" "[[3]]" "[[[7]]]"]
       a b c d
  show ?thesis by simp
qed

end
